theory Spec2Isabelle
  imports Main "HOL-Library.Word"
begin

unbundle bit_operations_syntax

section \<open>The LPeg matching machine with left recursion (lpvm.c)\<close>

text \<open>
  A shallow embedding of \<^verbatim>\<open>match\<close> and its helpers from \<^verbatim>\<open>lpvm.c\<close>.
  Pointers into the subject are offsets from \<^verbatim>\<open>o\<close> (so \<^verbatim>\<open>o\<close> is 0 and \<^verbatim>\<open>e\<close> is the
  length of the subject), pointers into the program are offsets from \<^verbatim>\<open>op\<close>, and
  the C \<^verbatim>\<open>int\<close>s that count captures and stack slots are modelled as \<open>int\<close>.
\<close>

subsection \<open>Instructions (lpvm.h)\<close>

type_synonym byte = "8 word"

datatype Opcode =
  IAny | IChar | ISet | ITestAny | ITestChar | ITestSet | ISpan | IUTFR | IBehind
  | IRet | IEnd | IChoice | IJmp | ICall | IOpenCall | ICommit | IPartialCommit
  | IBackCommit | IFailTwice | IFail | IGiveup | IFullCapture | IOpenCapture
  | ICloseCapture | ICloseRunTime | IEmpty

text \<open>
  \<^verbatim>\<open>union Instruction\<close>: a word of the program is read either as the struct
  \<^verbatim>\<open>i\<close> (code, aux, key), as an \<^verbatim>\<open>offset\<close>, or as the first word of a character
  set \<^verbatim>\<open>buff\<close> (32 bytes, which cover the following words as well).
\<close>

datatype Instruction =
  Inst Opcode byte "16 word"
  | Offset int
  | Buff "byte list"

text \<open>A program pointer: either the static \<^verbatim>\<open>giveup\<close> instruction or \<^verbatim>\<open>op + i\<close>.\<close>

datatype iptr = PGiveup | PCode int

text \<open>
  The ways in which the C function does not return to its caller normally:
  the five \<^verbatim>\<open>luaL_error\<close> calls, a violated \<^verbatim>\<open>assert\<close>, a Lua error raised by indexing
  \<^verbatim>\<open>nil\<close>, and behaviour that C leaves undefined (reading outside the program,
  reading a program word with the wrong member of the union).
\<close>

datatype error =
  StackOverflow | TooManyCaptures | TooManyCaptureLists | InvalidPosition
  | TooManyResults | AssertionViolated | LuaIndexNil | Undefined

subsection \<open>Captures, stack frames, Lua values\<close>

text \<open>
  \<^verbatim>\<open>struct Capture\<close> of lpcap.h (which is not among the sources): the fields are
  the ones lpvm.c writes. \<open>c_s\<close> is \<open>None\<close> for \<^verbatim>\<open>NULL\<close>.
\<close>

record Capture =
  c_s :: "int option"
  c_idx :: "16 word"
  c_kind :: byte
  c_siz :: byte

text \<open>
  Modelled from the spec: the capture kinds are an enumeration of lpcap.h, which is
  not among the sources; lpvm.c names only these three (the spec's kinds
  \<open>close\<close>, \<open>runtime\<close> and \<open>group\<close>). The numbers are their positions in that enumeration.
\<close>

definition Cclose :: byte where "Cclose = 0"
definition Cruntime :: byte where "Cruntime = 13"
definition Cgroup :: byte where "Cgroup = 14"

text \<open>The value of the frame field \<^verbatim>\<open>X\<close>: \<^verbatim>\<open>NULL\<close>, \<^verbatim>\<open>(char*)LRFAIL\<close> or a subject position.\<close>

datatype xptr = XNull | XLRFail | XPos int

record Stack =
  f_s :: "int option"
  f_p :: iptr
  f_caplevel :: int
  f_X :: xptr
  f_pA :: int

record CaptureStack =
  cs_captop :: int
  cs_dyncaptop :: int
  cs_capsize :: int

datatype lval = LNil | LBool bool | LNumber int | LOther nat

definition lua_toboolean :: "lval \<Rightarrow> bool" where
  "lua_toboolean v = (v \<noteq> LNil \<and> v \<noteq> LBool False)"

definition lua_isboolean :: "lval \<Rightarrow> bool" where
  "lua_isboolean v = (case v of LBool _ \<Rightarrow> True | _ \<Rightarrow> False)"

definition lua_tointeger :: "lval \<Rightarrow> int" where
  "lua_tointeger v = (case v of LNumber n \<Rightarrow> n | _ \<Rightarrow> 0)"

definition LRFAIL :: int where "LRFAIL = - 1"

text \<open>
  An item of the table at \<^verbatim>\<open>lambdaidx\<close>: the fields \<^verbatim>\<open>X\<close> and \<^verbatim>\<open>k\<close> set by
  \<^verbatim>\<open>ICall\<close>, and the four \<^verbatim>\<open>commit...\<close> fields set by \<^verbatim>\<open>putcapturestolambda\<close>. A field that
  was never set reads as \<^verbatim>\<open>nil\<close>: \<^verbatim>\<open>lua_tointeger\<close> makes that 0 and
  \<^verbatim>\<open>lua_touserdata\<close> makes it \<^verbatim>\<open>NULL\<close> (\<open>None\<close>).
\<close>

record lambda_item =
  l_X :: int
  l_k :: int
  commitcap :: "nat option"
  commitcaptop :: int
  commitdyncapcount :: int
  commitdyncap :: "lval list"

subsection \<open>The call of \<^verbatim>\<open>match\<close>: what does not change during a match\<close>

text \<open>
  \<open>op\<close> is the program and \<open>subject\<close> the bytes between \<^verbatim>\<open>o\<close> and \<^verbatim>\<open>e\<close>; \<open>beyond\<close> is
  the memory that follows the subject (\<open>beyond 0\<close> is the byte at \<^verbatim>\<open>e\<close>), which the
  code reads although it is not part of the subject. \<open>maxstack\<close> is the registry
  entry \<^verbatim>\<open>MAXSTACKIDX\<close>, \<open>dbase\<close> the Lua stack index \<^verbatim>\<open>dyncaplistidx(ptop)\<close>.
  \<open>INITBACK\<close>, \<open>INITCAPSIZE\<close> and \<open>INITCAPSTACKSIZE\<close> are macros of headers that are
  not among the sources, taken as parameters.

  \<open>runtimecap\<close> stands for the function of that name in lpcap.c (not among the
  sources), which calls the host function of a match-time capture. It is given the
  capture array, \<^verbatim>\<open>captop\<close>, the current position and the dynamic values on the
  Lua stack, and yields its return value \<^verbatim>\<open>n\<close>, the number \<^verbatim>\<open>rem\<close> of dynamic
  values it removed from the top of the Lua stack, and the values the host function
  returned (left on top of the Lua stack, the first of them at index \<^verbatim>\<open>fr - rem\<close>).
\<close>

record env =
  op :: "Instruction list"
  subject :: "byte list"
  beyond :: "nat \<Rightarrow> byte"
  maxstack :: int
  dbase :: int
  INITBACK :: nat
  INITCAPSIZE :: int
  INITCAPSTACKSIZE :: int
  runtimecap :: "(nat \<Rightarrow> Capture) \<Rightarrow> int \<Rightarrow> int \<Rightarrow> lval list \<Rightarrow> int \<times> nat \<times> lval list"

text \<open>\<^verbatim>\<open>e - o\<close>, which is also \<^verbatim>\<open>maxpointer\<close>.\<close>

definition limit :: "env \<Rightarrow> int" where
  "limit E = int (length (subject E))"

text \<open>The byte at \<^verbatim>\<open>o + i\<close>, for \<open>i\<close> not below 0.\<close>

definition mem :: "env \<Rightarrow> int \<Rightarrow> byte" where
  "mem E i = (if i < limit E then subject E ! nat i else beyond E (nat (i - limit E)))"

subsection \<open>\<^verbatim>\<open>utf8_decode\<close>\<close>

definition limits :: "nat \<Rightarrow> 32 word" where
  "limits count = [0xFF, 0x7F, 0x7FF, 0xFFFF] ! count"

text \<open>
  The \<^verbatim>\<open>while (c & 0x40)\<close> loop over the continuation bytes; \<open>c\<close> and \<open>res\<close> are
  \<^verbatim>\<open>unsigned int\<close>. \<open>None\<close> is the \<^verbatim>\<open>return NULL\<close> inside the loop.
\<close>

function utf8_loop :: "env \<Rightarrow> int \<Rightarrow> 32 word \<Rightarrow> 32 word \<Rightarrow> nat \<Rightarrow> (32 word \<times> 32 word \<times> nat) option" where
  "utf8_loop E i c res count =
     (if c AND 0x40 \<noteq> 0 then
        (let cc = (ucast (mem E (i + int (Suc count))) :: 32 word) in
         if cc AND 0xC0 \<noteq> 0x80 then None
         else utf8_loop E i (push_bit 1 c) (push_bit 6 res OR (cc AND 0x3F)) (Suc count))
      else Some (c, res, count))"
  by pat_completeness auto

lemma and_0x7F_take_bit: "(c :: 32 word) AND 0x7F = take_bit 7 c"
  by (simp add: take_bit_eq_mask mask_eq_exp_minus_1)

lemma and_0x40_bit: "((c :: 32 word) AND 0x40 \<noteq> 0) = bit c 6"
proof -
  have "(c AND 2 ^ 6 = 0) = (\<not> bit c 6)" by (rule and_exp_eq_0_iff_not_bit)
  then show ?thesis by simp
qed

lemma shift_left_measure:
  "c AND 0x40 \<noteq> 0 \<Longrightarrow> unat ((push_bit 1 c :: 32 word) AND 0x7F) < unat (c AND 0x7F)"
proof -
  assume a: "c AND 0x40 \<noteq> 0"
  then have b: "bit (unat c) 6" by (simp add: and_0x40_bit bit_unsigned_iff)
  have "unat (take_bit 7 c) = take_bit 7 (unat c)" by (rule unsigned_take_bit_eq)
  then have 1: "unat (c AND 0x7F) = unat c mod 128"
    unfolding and_0x7F_take_bit by (simp only: take_bit_eq_mod) simp
  have "unat (take_bit 7 (push_bit 1 c)) = take_bit 7 (unat (push_bit 1 c))"
    by (rule unsigned_take_bit_eq)
  also have "\<dots> = take_bit 7 (take_bit 32 (push_bit 1 (unat c)))"
    by (simp only: unsigned_push_bit_eq) simp
  also have "\<dots> = (2 * unat c) mod 128"
    by (simp add: take_bit_eq_mod push_bit_eq_mult mod_mod_cancel mult.commute)
  finally have 2: "unat (push_bit 1 c AND 0x7F) = (2 * unat c) mod 128"
    unfolding and_0x7F_take_bit .
  from b have o: "odd (unat c div 64)" by (simp add: bit_iff_odd)
  have "unat c mod (64 * 2) = 64 * (unat c div 64 mod 2) + unat c mod 64"
    by (rule mod_mult2_eq)
  with o have 3: "unat c mod 128 = 64 + unat c mod 64" by (simp add: odd_iff_mod_2_eq_one)
  have "2 * (unat c mod 64) = (2 * unat c) mod (2 * 64)" by (rule mult_mod_right)
  then have 4: "(2 * unat c) mod 128 = 2 * (unat c mod 64)" by simp
  have "unat c mod 64 < 64" by simp
  then show ?thesis unfolding 1 2 3 4 by linarith
qed

lemma shift_left_measure_mult:
  "c AND 0x40 \<noteq> 0 \<Longrightarrow> unat ((c * 2 :: 32 word) AND 0x7F) < unat (c AND 0x7F)"
  using shift_left_measure [of c] by (simp add: push_bit_eq_mult)

termination utf8_loop
  by (relation "measure (\<lambda>(E, i, c, res, count). unat (c AND 0x7F))")
    (auto simp: shift_left_measure_mult)

text \<open>
  \<open>utf8_decode E i\<close> decodes the sequence at \<^verbatim>\<open>o + i\<close>: \<open>None\<close> for \<^verbatim>\<open>NULL\<close>, else the
  position after the sequence and the code point.
\<close>

definition utf8_decode :: "env \<Rightarrow> int \<Rightarrow> (int \<times> int) option" where
  "utf8_decode E i =
     (let c = (ucast (mem E i) :: 32 word) in
      if c < 0x80 then Some (i + 1, uint c)
      else (case utf8_loop E i c 0 0 of
              None \<Rightarrow> None
            | Some (c', res, count) \<Rightarrow>
                (let res' = res OR push_bit (count * 5) (c' AND 0x7F) in
                 if count > 3 \<or> res' > 0x10FFFF \<or> res' \<le> limits count then None
                 else Some (i + int count + 1, uint res'))))"

declare utf8_loop.simps [simp del]

subsection \<open>The state of a match\<close>

text \<open>
  What \<^verbatim>\<open>match\<close> keeps in the Lua state: the table at \<^verbatim>\<open>lambdaidx\<close> (the memo table
  of the left-recursive calls), the table at \<^verbatim>\<open>caplistsidx\<close> (level to capture
  array), the table at \<^verbatim>\<open>dyncaplistidx\<close> (level to the saved dynamic values), and the
  values above \<^verbatim>\<open>dyncaplistidx\<close> on the Lua stack (\<open>dyncaps\<close>, bottom first).
  Capture arrays are userdata: \<open>heap\<close> maps the address of a block to its
  content, \<open>nextblock\<close> is the next unused address. The slot \<^verbatim>\<open>caplistidx\<close>
  always holds the block the C variable \<^verbatim>\<open>capture\<close> points to, so it is not kept
  separately. The content of a new block is not initialised by C; here it is
  \<open>nocapture\<close>. Writes are not checked against the size of a block.
\<close>

record lua_State =
  lambda :: "int \<Rightarrow> lambda_item option"
  caplists :: "int \<Rightarrow> nat option"
  dyncaplist :: "int \<Rightarrow> lval list option"
  dyncaps :: "lval list"
  heap :: "nat \<Rightarrow> nat \<Rightarrow> Capture"
  nextblock :: nat

definition nocapture :: Capture where
  "nocapture = \<lparr>c_s = None, c_idx = 0, c_kind = 0, c_siz = 0\<rparr>"

text \<open>
  The local variables of \<^verbatim>\<open>match\<close>. \<open>stack\<close> is the index of the first empty
  slot of the array \<open>stackbase\<close>, \<open>stacklimit\<close> the number of its slots;
  \<open>capture\<close> is the address of the current capture array; \<open>capstack\<close> is the index
  the pointer of that name has in the array \<open>capstackbase\<close>.
\<close>

record state =
  s :: int
  p :: iptr
  stackbase :: "nat \<Rightarrow> Stack"
  stack :: nat
  stacklimit :: nat
  capsize :: int
  captop :: int
  ndyncap :: int
  capture :: nat
  capstackbase :: "nat \<Rightarrow> CaptureStack"
  capstack :: nat
  capstacksize :: int
  capstacktop :: int
  L :: lua_State

text \<open>What one turn of the \<^verbatim>\<open>for (;;)\<close> loop ends with: \<^verbatim>\<open>continue\<close> or \<^verbatim>\<open>return\<close>.\<close>

datatype outcome = Continue state | Return "int option" state

definition ebind :: "error + 'a \<Rightarrow> ('a \<Rightarrow> error + 'b) \<Rightarrow> error + 'b" where
  "ebind m f = (case m of Inl e \<Rightarrow> Inl e | Inr x \<Rightarrow> f x)"

subsection \<open>Growing the arrays\<close>

definition MAXNEWSIZE :: int where
  "MAXNEWSIZE = 2147483647"

definition lua_newuserdata :: "lua_State \<Rightarrow> nat \<times> lua_State" where
  "lua_newuserdata l =
     (nextblock l, l\<lparr>heap := (heap l)(nextblock l := (\<lambda>_. nocapture)), nextblock := Suc (nextblock l)\<rparr>)"

text \<open>
  \<open>growcap l capture capsize captop n\<close> yields the array, the new \<^verbatim>\<open>*capsize\<close> and
  the Lua state.
\<close>

definition growcap :: "lua_State \<Rightarrow> nat \<Rightarrow> int \<Rightarrow> int \<Rightarrow> int \<Rightarrow> error + (nat \<times> int \<times> lua_State)" where
  "growcap l capt csize ctop n =
     (if csize - ctop > n then Inr (capt, csize, l)
      else
        (let newsize = ctop + n + 1;
             grown = (\<lambda>sz. (let (newc, l1) = lua_newuserdata l in
                Inr (newc, sz, l1\<lparr>heap := (heap l1)(newc :=
                   (\<lambda>i. if int i < ctop then heap l capt i else nocapture))\<rparr>)))
         in if newsize < MAXNEWSIZE div 2 then grown (newsize * 2)
            else if newsize < (MAXNEWSIZE div 9) * 8 then grown (newsize + newsize div 8)
            else Inl TooManyCaptures))"

definition newcap :: "lua_State \<Rightarrow> int \<Rightarrow> int \<Rightarrow> nat \<times> lua_State" where
  "newcap l sz capstackptr =
     (let (newc, l1) = lua_newuserdata l in
      (newc, l1\<lparr>caplists := (caplists l1)(capstackptr \<mapsto> newc)\<rparr>))"

text \<open>
  \<^verbatim>\<open>doublestack\<close>: the frames are copied, so only the number of slots changes, and
  the pointer returned is the old \<^verbatim>\<open>stacklimit\<close>, where \<^verbatim>\<open>stack\<close> already is.
\<close>

definition doublestack :: "env \<Rightarrow> state \<Rightarrow> error + state" where
  "doublestack E st =
     (let n = int (stacklimit st); max = maxstack E in
      if n \<ge> max then Inl StackOverflow
      else Inr (st\<lparr>stacklimit := nat (if 2 * n > max then max else 2 * n)\<rparr>))"

text \<open>\<^verbatim>\<open>if (stack == stacklimit) stack = doublestack(L, &stacklimit, ptop);\<close>\<close>

definition checkstack :: "env \<Rightarrow> state \<Rightarrow> error + state" where
  "checkstack E st = (if stack st = stacklimit st then doublestack E st else Inr st)"

text \<open>
  \<^verbatim>\<open>doublecapstack\<close>; \<^verbatim>\<open>sizeof(CaptureStack)\<close> is three \<^verbatim>\<open>int\<close>s (the struct is
  declared in lpcap.h, lpvm.c uses the fields \<^verbatim>\<open>captop\<close>, \<^verbatim>\<open>dyncaptop\<close>, \<^verbatim>\<open>capsize\<close>).
\<close>

definition doublecapstack :: "state \<Rightarrow> error + (nat \<Rightarrow> CaptureStack)" where
  "doublecapstack st =
     (if capstacktop st \<ge> 2147483647 div (12 * 2) then Inl TooManyCaptureLists
      else Inr (\<lambda>i. if int i < capstacktop st then capstackbase st i
                     else \<lparr>cs_captop = 0, cs_dyncaptop = 0, cs_capsize = 0\<rparr>))"

subsection \<open>Saving and restoring captures around a left-recursive call\<close>

text \<open>The last \<open>n\<close> values of the Lua stack, and the stack without them (\<^verbatim>\<open>lua_pop\<close>).\<close>

definition lastvalues :: "int \<Rightarrow> lval list \<Rightarrow> lval list" where
  "lastvalues n vs = drop (length vs - nat n) vs"

definition lua_pop :: "int \<Rightarrow> lval list \<Rightarrow> lval list" where
  "lua_pop n vs = take (length vs - nat n) vs"

text \<open>
  The values that \<^verbatim>\<open>lua_rawgeti(L, -1, i)\<close> pushes for \<^verbatim>\<open>i\<close> from 1 to \<open>n\<close>, on a table
  that holds the list \<open>vs\<close>: \<^verbatim>\<open>nil\<close> beyond its end.
\<close>

definition rawgeti_upto :: "lval list \<Rightarrow> int \<Rightarrow> lval list" where
  "rawgeti_upto vs n = map (\<lambda>i. if i < length vs then vs ! i else LNil) [0..<nat n]"

definition removecapturesfromstack :: "lua_State \<Rightarrow> int \<Rightarrow> int \<times> lua_State" where
  "removecapturesfromstack l lvl =
     (lvl - 1, l\<lparr>caplists := (caplists l)(lvl := None), dyncaplist := (dyncaplist l)(lvl := None)\<rparr>)"

text \<open>
  \<^verbatim>\<open>getcapturesfromstack\<close>: the array of the level and, in place of the \<open>nd\<close> dynamic
  values of the Lua stack, the first \<open>newdyncap\<close> values saved for the level (\<^verbatim>\<open>nil\<close>
  where the saved table is shorter). A level without an array gives the pointer
  \<^verbatim>\<open>NULL\<close>, reading values from a level without a table is not defined.
\<close>

definition getcapturesfromstack :: "lua_State \<Rightarrow> int \<Rightarrow> int \<Rightarrow> int \<Rightarrow> error + (nat \<times> lua_State)" where
  "getcapturesfromstack l nd newdyncap lvl =
     (case caplists l lvl of
        None \<Rightarrow> Inl Undefined
      | Some capt \<Rightarrow>
          (let popped = lua_pop nd (dyncaps l) in
           if newdyncap \<le> 0 then Inr (capt, l\<lparr>dyncaps := popped\<rparr>)
           else (case dyncaplist l lvl of
                   None \<Rightarrow> Inl Undefined
                 | Some vs \<Rightarrow> Inr (capt, l\<lparr>dyncaps := popped @ rawgeti_upto vs newdyncap\<rparr>))))"

text \<open>
  \<^verbatim>\<open>addcapturestostack\<close>, on the variables it is passed by reference.
\<close>

definition addcapturestostack :: "state \<Rightarrow> error + state" where
  "addcapturestostack st =
     (let cb = (capstackbase st)(capstack st :=
                  (capstackbase st (capstack st))\<lparr>cs_captop := captop st, cs_dyncaptop := ndyncap st\<rparr>);
          l1 = (L st)\<lparr>dyncaplist := (dyncaplist (L st))(capstacktop st \<mapsto>
                  lastvalues (ndyncap st) (dyncaps (L st)))\<rparr>;
          st1 = st\<lparr>capstackbase := cb, L := l1\<rparr>
      in ebind (if capstacktop st + 1 \<ge> capstacksize st
                then ebind (doublecapstack st1) (\<lambda>cb'.
                       Inr (st1\<lparr>capstackbase := cb', capstacksize := 2 * capstacktop st\<rparr>))
                else Inr st1)
           (\<lambda>st2. Inr (st2\<lparr>capstacktop := capstacktop st + 1, capstack := Suc (capstack st)\<rparr>)))"

text \<open>
  The seven lines that \<^verbatim>\<open>match\<close> repeats wherever a left-recursive frame leaves the
  stack (in the loop of \<^verbatim>\<open>fail\<close>, under \<^verbatim>\<open>inc.2\<close> and under \<^verbatim>\<open>inc.3\<close>):
  \<^verbatim>\<open>capstacktop = removecapturesfromstack(...); capstack--; captop = capstack->captop;
  capsize = capstack->capsize; newdyncap = capstack->dyncaptop;
  capture = getcapturesfromstack(...); ndyncap = newdyncap;\<close>
\<close>

definition restorecaptures :: "state \<Rightarrow> error + state" where
  "restorecaptures st =
     (let (lvl, l1) = removecapturesfromstack (L st) (capstacktop st) in
      if capstack st = 0 then Inl Undefined
      else
        (let c = capstackbase st (capstack st - 1) in
         ebind (getcapturesfromstack l1 (ndyncap st) (cs_dyncaptop c) lvl) (\<lambda>(capt, l2).
           Inr (st\<lparr>capstacktop := lvl, capstack := capstack st - 1, captop := cs_captop c,
                   capsize := cs_capsize c, capture := capt, ndyncap := cs_dyncaptop c, L := l2\<rparr>))))"

subsection \<open>The memo table of the left-recursive calls\<close>

text \<open>
  The conversion of a \<^verbatim>\<open>ptrdiff_t\<close> or \<^verbatim>\<open>lua_Integer\<close> value to \<^verbatim>\<open>int\<close> (32 bits, two's
  complement; the wider types are taken to hold the values exactly).
\<close>

definition to_int :: "int \<Rightarrow> int" where
  "to_int x = (x + 2147483648) mod 4294967296 - 2147483648"

text \<open>\<^verbatim>\<open>int maxpointer = e - o;\<close>\<close>

definition maxpointer :: "env \<Rightarrow> int" where
  "maxpointer E = to_int (limit E)"

text \<open>
  The key of the table at \<^verbatim>\<open>lambdaidx\<close>. \<open>lambdakey\<close> is the expression
  \<^verbatim>\<open>(pA - op) * maxpointer + (s - o)\<close>, of type \<^verbatim>\<open>ptrdiff_t\<close>, which the growth branch of
  \<^verbatim>\<open>IRet\<close> pushes as it is. \<open>lambdaindex\<close> is its value in the variable
  \<^verbatim>\<open>int lambdaindex\<close> of \<^verbatim>\<open>ICall\<close>, of \<^verbatim>\<open>inc.3\<close> and of \<^verbatim>\<open>inc.2\<close>, and in the parameter
  \<^verbatim>\<open>int index\<close> of \<^verbatim>\<open>clearlambdaitem\<close>.
\<close>

definition lambdakey :: "env \<Rightarrow> int \<Rightarrow> int \<Rightarrow> int" where
  "lambdakey E pA s0 = pA * maxpointer E + s0"

definition lambdaindex :: "env \<Rightarrow> int \<Rightarrow> int \<Rightarrow> int" where
  "lambdaindex E pA s0 = to_int (lambdakey E pA s0)"

definition clearlambdaitem :: "lua_State \<Rightarrow> int \<Rightarrow> lua_State" where
  "clearlambdaitem l index = l\<lparr>lambda := (lambda l)(index := None)\<rparr>"

text \<open>
  \<^verbatim>\<open>putcapturestolambda\<close> works on the item on top of the Lua stack; \<open>capt\<close> is the
  array in the slot \<^verbatim>\<open>caplistidx\<close>.
\<close>

definition putcapturestolambda :: "lua_State \<Rightarrow> nat \<Rightarrow> int \<Rightarrow> int \<Rightarrow> lambda_item \<Rightarrow> lambda_item" where
  "putcapturestolambda l capt nd ctop item =
     item\<lparr>commitcap := Some capt, commitcaptop := ctop,
          commitdyncap := lastvalues nd (dyncaps l), commitdyncapcount := nd\<rparr>"

text \<open>
  \<^verbatim>\<open>addcapturesfromlambda\<close>, on the variables it is passed by reference. The saved
  dynamic values go on top of the Lua stack; the \<^verbatim>\<open>idx\<close> of the saved runtime
  captures is increased in the saved array itself; then the saved captures are
  copied behind the current ones.
\<close>

definition addcapturesfromlambda :: "int \<Rightarrow> state \<Rightarrow> error + state" where
  "addcapturesfromlambda index st =
     (case lambda (L st) index of
        None \<Rightarrow> Inl LuaIndexNil
      | Some item \<Rightarrow>
          (let n = commitcaptop item;
               cnt = commitdyncapcount item;
               vs = commitdyncap item;
               pushed = dyncaps (L st) @ rawgeti_upto vs cnt
           in if n \<le> 0 then Inr (st\<lparr>ndyncap := ndyncap st + cnt, L := (L st)\<lparr>dyncaps := pushed\<rparr>\<rparr>)
              else
                (case commitcap item of
                   None \<Rightarrow> Inl Undefined
                 | Some cc \<Rightarrow>
                     (let shifted = (\<lambda>i. let c = heap (L st) cc i in
                            if int i < n \<and> c_kind c = Cruntime
                            then c\<lparr>c_idx := c_idx c + word_of_int (ndyncap st)\<rparr> else c);
                          l1 = (L st)\<lparr>dyncaps := pushed, heap := (heap (L st))(cc := shifted)\<rparr>
                      in ebind (if captop st + n \<ge> capsize st
                                then growcap l1 (capture st) (capsize st) (captop st + n) 0
                                else Inr (capture st, capsize st, l1))
                           (\<lambda>(capt, csz, l2).
                              Inr (st\<lparr>ndyncap := ndyncap st + cnt, capture := capt, capsize := csz,
                                      captop := captop st + n,
                                      L := l2\<lparr>heap := (heap l2)(capt :=
                                        (\<lambda>i. if captop st \<le> int i \<and> int i < captop st + n
                                              then heap l2 cc (nat (int i - captop st))
                                              else heap l2 capt i))\<rparr>\<rparr>))))))"

subsection \<open>Dynamic captures\<close>

text \<open>
  \<^verbatim>\<open>resdyncaptures\<close>: \<open>results\<close> are the values from the Lua stack index \<^verbatim>\<open>fr\<close> on; the
  function yields the new position (-1 to fail) and the values left from \<^verbatim>\<open>fr\<close> on.
\<close>

definition resdyncaptures :: "lval list \<Rightarrow> int \<Rightarrow> int \<Rightarrow> error + (int \<times> lval list)" where
  "resdyncaptures results cur lim =
     (case results of
        [] \<Rightarrow> Inr (- 1, [])
      | v # vs \<Rightarrow>
          if \<not> lua_toboolean v then Inr (- 1, [])
          else if lua_isboolean v then Inr (cur, vs)
          else (let res = lua_tointeger v - 1 in
                if res < cur \<or> res > lim then Inl InvalidPosition else Inr (res, vs)))"

text \<open>
  \<^verbatim>\<open>adddyncaptures(s, capture + captop, n, fd)\<close> on the content of the array;
  \<open>ctop\<close> is \<^verbatim>\<open>captop\<close>.
\<close>

definition adddyncaptures :: "int \<Rightarrow> (nat \<Rightarrow> Capture) \<Rightarrow> int \<Rightarrow> int \<Rightarrow> int \<Rightarrow> error + (nat \<Rightarrow> Capture)" where
  "adddyncaptures sv block ctop n fd =
     (if ctop \<le> 0 then Inl Undefined
      else
        (let g = block (nat (ctop - 1)) in
         if \<not> (c_kind g = Cgroup \<and> c_siz g = 0) then Inl AssertionViolated
         else Inr (\<lambda>i. if int i = ctop - 1 then g\<lparr>c_idx := 0\<rparr>
                        else if ctop \<le> int i \<and> int i < ctop + n
                        then \<lparr>c_s = Some sv, c_idx = word_of_int (fd + (int i - ctop)),
                              c_kind = Cruntime, c_siz = 1\<rparr>
                        else if int i = ctop + n
                        then (block i)\<lparr>c_s := Some sv, c_kind := Cclose, c_siz := 1\<rparr>
                        else block i)))"

text \<open>
  Modelled from the spec: \<^verbatim>\<open>finddyncap\<close> is a function of lpcap.c, which is not among
  the sources. \<^verbatim>\<open>removedyncap\<close> takes its result for the Lua stack index of the first
  dynamic capture between \<open>level\<close> and \<open>lst\<close>, 0 when there is none: the \<^verbatim>\<open>idx\<close> of
  the first capture of kind \<open>runtime\<close> there.
\<close>

definition finddyncap :: "(nat \<Rightarrow> Capture) \<Rightarrow> int \<Rightarrow> int \<Rightarrow> int" where
  "finddyncap block level lst =
     (case find (\<lambda>c. c_kind c = Cruntime) (map block [nat level..<nat lst]) of
        None \<Rightarrow> 0
      | Some c \<Rightarrow> uint (c_idx c))"

text \<open>
  \<^verbatim>\<open>lua_settop\<close> for an index in the part of the Lua stack that holds the dynamic
  values: it cuts the stack or fills it with \<^verbatim>\<open>nil\<close>. An index below that part would
  remove the tables \<^verbatim>\<open>match\<close> works with (\<open>None\<close>).
\<close>

definition lua_settop :: "env \<Rightarrow> lval list \<Rightarrow> int \<Rightarrow> lval list option" where
  "lua_settop E vs idx =
     (if idx < dbase E then None
      else Some (take (nat (idx - dbase E)) vs @ replicate (nat (idx - dbase E) - length vs) LNil))"

definition removedyncap :: "env \<Rightarrow> lua_State \<Rightarrow> nat \<Rightarrow> int \<Rightarrow> int \<Rightarrow> error + (int \<times> lua_State)" where
  "removedyncap E l capt level lst =
     (let id = finddyncap (heap l capt) level lst;
          top = dbase E + int (length (dyncaps l))
      in if id = 0 then Inr (0, l)
         else (case lua_settop E (dyncaps l) (id - 1) of
                 None \<Rightarrow> Inl Undefined
               | Some vs \<Rightarrow> Inr (top - id + 1, l\<lparr>dyncaps := vs\<rparr>)))"

subsection \<open>Reading the program\<close>

definition word_at :: "env \<Rightarrow> int \<Rightarrow> Instruction option" where
  "word_at E i = (if 0 \<le> i \<and> i < int (length (op E)) then Some (op E ! nat i) else None)"

text \<open>\<^verbatim>\<open>p->i\<close>: the code, \<^verbatim>\<open>aux\<close> and \<^verbatim>\<open>key\<close> of the word at \<open>q\<close>.\<close>

definition fetch :: "env \<Rightarrow> iptr \<Rightarrow> (Opcode \<times> byte \<times> 16 word) option" where
  "fetch E q =
     (case q of
        PGiveup \<Rightarrow> Some (IGiveup, 0, 0)
      | PCode i \<Rightarrow> (case word_at E i of Some (Inst c a k) \<Rightarrow> Some (c, a, k) | _ \<Rightarrow> None))"

text \<open>\<^verbatim>\<open>(op + i)->offset\<close> and \<^verbatim>\<open>(op + i)->buff\<close>.\<close>

definition offset_at :: "env \<Rightarrow> int \<Rightarrow> int option" where
  "offset_at E i = (case word_at E i of Some (Offset k) \<Rightarrow> Some k | _ \<Rightarrow> None)"

definition buff_at :: "env \<Rightarrow> int \<Rightarrow> byte list option" where
  "buff_at E i = (case word_at E i of Some (Buff b) \<Rightarrow> (if length b = 32 then Some b else None) | _ \<Rightarrow> None)"

text \<open>
  Modelled from the spec: \<^verbatim>\<open>CHARSETINSTSIZE\<close>, \<^verbatim>\<open>testchar\<close>, \<^verbatim>\<open>getkind\<close> and \<^verbatim>\<open>getoff\<close>
  are macros of lptypes.h and lpcap.h, which are not among the sources. A character
  set is a bitmap of 256 bits in 32 bytes "occupying multiple consecutive words":
  with words of four bytes, the instruction word and eight more. The 8-bit auxiliary
  field of a capture instruction carries the kind (low four bits) and the size (high
  four bits).
\<close>

definition CHARSETINSTSIZE :: int where "CHARSETINSTSIZE = 9"

definition testchar :: "byte list \<Rightarrow> byte \<Rightarrow> bool" where
  "testchar st c = bit (st ! unat (drop_bit 3 c)) (unat (c AND 7))"

definition getkind :: "byte \<Rightarrow> byte" where "getkind a = a AND 0xF"

definition getoff :: "byte \<Rightarrow> int" where "getoff a = uint (drop_bit 4 a AND 0xF)"

text \<open>\<^verbatim>\<open>utf_to(inst)\<close>, \<^verbatim>\<open>key\<close> being a \<^verbatim>\<open>short\<close>.\<close>

definition utf_to :: "byte \<Rightarrow> 16 word \<Rightarrow> int" where
  "utf_to a k = or (sint k * 256) (uint a)"

definition SHRT_MAX :: int where "SHRT_MAX = 32767"
definition UCHAR_MAX :: int where "UCHAR_MAX = 255"

subsection \<open>The label \<^verbatim>\<open>fail\<close>\<close>

text \<open>
  The part common to \<^verbatim>\<open>inc.2\<close> (in \<^verbatim>\<open>fail\<close>) and \<^verbatim>\<open>inc.3\<close> (in \<^verbatim>\<open>IRet\<close>) once \<^verbatim>\<open>p\<close> and
  \<^verbatim>\<open>s\<close> are set: the captures of the level below are restored, the captures saved
  in the memo item of the frame \<open>fr\<close> are added, the item is cleared.
\<close>

definition inc_end :: "env \<Rightarrow> Stack \<Rightarrow> state \<Rightarrow> error + outcome" where
  "inc_end E fr st =
     ebind (restorecaptures st) (\<lambda>st1.
       case f_s fr of
         None \<Rightarrow> Inl Undefined
       | Some s0 \<Rightarrow>
           (let index = lambdaindex E (f_pA fr) s0 in
            ebind (addcapturesfromlambda index st1) (\<lambda>st2.
              Inr (Continue (st2\<lparr>L := clearlambdaitem (L st2) index\<rparr>)))))"

text \<open>
  The \<^verbatim>\<open>do ... while (s == NULL || X == (char*)LRFAIL)\<close> loop of \<^verbatim>\<open>fail\<close>, by
  recursion on \<^verbatim>\<open>stack\<close>: the second argument is the value of \<^verbatim>\<open>stack\<close> on entry
  to the body. The result has \<^verbatim>\<open>stack\<close> at the frame the loop stopped at and \<^verbatim>\<open>s\<close>
  set from it.
\<close>

fun fail_loop :: "env \<Rightarrow> nat \<Rightarrow> state \<Rightarrow> error + state" where
  "fail_loop E 0 st = Inl AssertionViolated"
| "fail_loop E (Suc n) st =
     (let fr = stackbase st n; st1 = st\<lparr>stack := n\<rparr> in
      if f_X fr = XLRFail then
        ebind (restorecaptures st1) (\<lambda>st2.
          case f_s fr of
            None \<Rightarrow> Inl Undefined
          | Some s0 \<Rightarrow>
              fail_loop E n (st2\<lparr>L := clearlambdaitem (L st2) (lambdaindex E (f_pA fr) s0)\<rparr>))
      else
        (case f_s fr of
           None \<Rightarrow> fail_loop E n st1
         | Some v \<Rightarrow> Inr (st1\<lparr>s := v\<rparr>)))"

definition fail :: "env \<Rightarrow> state \<Rightarrow> error + outcome" where
  "fail E st =
     ebind (fail_loop E (stack st) st) (\<lambda>st1.
       (let fr = stackbase st1 (stack st1) in
        ebind (if ndyncap st1 > 0
               then removedyncap E (L st1) (capture st1) (f_caplevel fr) (captop st1)
               else Inr (0, L st1))
          (\<lambda>(removed, l1).
             (let st2 = st1\<lparr>ndyncap := ndyncap st1 - removed, L := l1, p := f_p fr\<rparr> in
              case f_X fr of
                XNull \<Rightarrow> Inr (Continue (st2\<lparr>captop := f_caplevel fr\<rparr>))
              | XPos x \<Rightarrow> inc_end E fr (st2\<lparr>s := x\<rparr>)
              | XLRFail \<Rightarrow> Inl Undefined))))"

subsection \<open>The instructions\<close>

text \<open>
  One definition for each \<^verbatim>\<open>case\<close> of the \<^verbatim>\<open>switch\<close>; \<open>i\<close> is \<^verbatim>\<open>p - op\<close>, \<open>a\<close> is
  \<^verbatim>\<open>p->i.aux\<close> and \<open>k\<close> is \<^verbatim>\<open>p->i.key\<close>.
\<close>

definition exec_IEnd :: "state \<Rightarrow> error + outcome" where
  "exec_IEnd st =
     (if stack st \<noteq> 1 then Inl AssertionViolated
      else Inr (Return (Some (s st))
             (st\<lparr>L := (L st)\<lparr>heap := (heap (L st))(capture st :=
                (heap (L st) (capture st))(nat (captop st) :=
                   (heap (L st) (capture st) (nat (captop st)))\<lparr>c_kind := Cclose, c_s := None\<rparr>))\<rparr>\<rparr>)))"

definition exec_IGiveup :: "state \<Rightarrow> error + outcome" where
  "exec_IGiveup st = (if stack st \<noteq> 0 then Inl AssertionViolated else Inr (Return None st))"

text \<open>The branch \<^verbatim>\<open>rule lvar.1 inc.1\<close> of \<^verbatim>\<open>IRet\<close>, for the top frame \<open>fr\<close>.\<close>

definition ret_inc1 :: "env \<Rightarrow> Stack \<Rightarrow> state \<Rightarrow> error + outcome" where
  "ret_inc1 E fr st =
     (case f_s fr of
        None \<Rightarrow> Inl Undefined
      | Some s0 \<Rightarrow>
          (let index = lambdakey E (f_pA fr) s0 in
           case lambda (L st) index of
             None \<Rightarrow> Inl LuaIndexNil
           | Some item \<Rightarrow>
               (let item1 = putcapturestolambda (L st) (capture st) (ndyncap st) (captop st)
                              (item\<lparr>l_X := s st\<rparr>);
                    l1 = (L st)\<lparr>lambda := (lambda (L st))(index \<mapsto> item1),
                              dyncaps := (if ndyncap st > 0 then lua_pop (ndyncap st) (dyncaps (L st))
                                          else dyncaps (L st))\<rparr>;
                    (newc, l2) = newcap l1 (INITCAPSIZE E) (capstacktop st)
                in Inr (Continue (st\<lparr>
                     stackbase := (stackbase st)(stack st - 1 := fr\<lparr>f_X := XPos (s st), f_caplevel := captop st\<rparr>),
                     p := PCode (f_pA fr), s := s0, ndyncap := 0, captop := 0,
                     capsize := INITCAPSIZE E, capture := newc,
                     capstackbase := (capstackbase st)(capstack st :=
                        \<lparr>cs_captop = 0, cs_dyncaptop = 0, cs_capsize = INITCAPSIZE E\<rparr>),
                     L := l2\<rparr>)))))"

text \<open>The branch \<^verbatim>\<open>rule inc.3\<close> of \<^verbatim>\<open>IRet\<close>, for the top frame \<open>fr\<close> with \<^verbatim>\<open>X\<close> at \<open>x\<close>.\<close>

definition ret_inc3 :: "env \<Rightarrow> Stack \<Rightarrow> int \<Rightarrow> state \<Rightarrow> error + outcome" where
  "ret_inc3 E fr x st = inc_end E fr (st\<lparr>stack := stack st - 1, p := f_p fr, s := x\<rparr>)"

definition exec_IRet :: "env \<Rightarrow> state \<Rightarrow> error + outcome" where
  "exec_IRet E st =
     (if stack st = 0 then Inl Undefined
      else
        (let fr = stackbase st (stack st - 1) in
         case f_X fr of
           XNull \<Rightarrow>
             (if f_s fr = None then Inr (Continue (st\<lparr>stack := stack st - 1, p := f_p fr\<rparr>))
              else Inl AssertionViolated)
         | XLRFail \<Rightarrow> ret_inc1 E fr st
         | XPos x \<Rightarrow> (if s st > x then ret_inc1 E fr st else ret_inc3 E fr x st)))"

definition exec_IAny :: "env \<Rightarrow> int \<Rightarrow> state \<Rightarrow> error + outcome" where
  "exec_IAny E i st =
     (if s st < limit E then Inr (Continue (st\<lparr>p := PCode (i + 1), s := s st + 1\<rparr>))
      else fail E st)"

definition exec_IUTFR :: "env \<Rightarrow> int \<Rightarrow> byte \<Rightarrow> 16 word \<Rightarrow> state \<Rightarrow> error + outcome" where
  "exec_IUTFR E i a k st =
     (if s st \<ge> limit E then fail E st
      else
        (case utf8_decode E (s st) of
           None \<Rightarrow> fail E st
         | Some (s1, codepoint) \<Rightarrow>
             (case offset_at E (i + 1) of
                None \<Rightarrow> Inl Undefined
              | Some from \<Rightarrow>
                  if from \<le> codepoint \<and> codepoint \<le> utf_to a k
                  then Inr (Continue (st\<lparr>s := s1, p := PCode (i + 2)\<rparr>))
                  else fail E st)))"

definition exec_ITestAny :: "env \<Rightarrow> int \<Rightarrow> state \<Rightarrow> error + outcome" where
  "exec_ITestAny E i st =
     (if s st < limit E then Inr (Continue (st\<lparr>p := PCode (i + 2)\<rparr>))
      else (case offset_at E (i + 1) of
              None \<Rightarrow> Inl Undefined
            | Some off \<Rightarrow> Inr (Continue (st\<lparr>p := PCode (i + off)\<rparr>))))"

definition exec_IChar :: "env \<Rightarrow> int \<Rightarrow> byte \<Rightarrow> state \<Rightarrow> error + outcome" where
  "exec_IChar E i a st =
     (if mem E (s st) = a \<and> s st < limit E
      then Inr (Continue (st\<lparr>p := PCode (i + 1), s := s st + 1\<rparr>))
      else fail E st)"

definition exec_ITestChar :: "env \<Rightarrow> int \<Rightarrow> byte \<Rightarrow> state \<Rightarrow> error + outcome" where
  "exec_ITestChar E i a st =
     (if mem E (s st) = a \<and> s st < limit E then Inr (Continue (st\<lparr>p := PCode (i + 2)\<rparr>))
      else (case offset_at E (i + 1) of
              None \<Rightarrow> Inl Undefined
            | Some off \<Rightarrow> Inr (Continue (st\<lparr>p := PCode (i + off)\<rparr>))))"

definition exec_ISet :: "env \<Rightarrow> int \<Rightarrow> state \<Rightarrow> error + outcome" where
  "exec_ISet E i st =
     (let c = mem E (s st) in
      case buff_at E (i + 1) of
        None \<Rightarrow> Inl Undefined
      | Some b \<Rightarrow>
          if testchar b c \<and> s st < limit E
          then Inr (Continue (st\<lparr>p := PCode (i + CHARSETINSTSIZE), s := s st + 1\<rparr>))
          else fail E st)"

definition exec_ITestSet :: "env \<Rightarrow> int \<Rightarrow> state \<Rightarrow> error + outcome" where
  "exec_ITestSet E i st =
     (let c = mem E (s st) in
      case buff_at E (i + 2) of
        None \<Rightarrow> Inl Undefined
      | Some b \<Rightarrow>
          if testchar b c \<and> s st < limit E
          then Inr (Continue (st\<lparr>p := PCode (i + (1 + CHARSETINSTSIZE))\<rparr>))
          else (case offset_at E (i + 1) of
                  None \<Rightarrow> Inl Undefined
                | Some off \<Rightarrow> Inr (Continue (st\<lparr>p := PCode (i + off)\<rparr>))))"

definition exec_IBehind :: "env \<Rightarrow> int \<Rightarrow> byte \<Rightarrow> state \<Rightarrow> error + outcome" where
  "exec_IBehind E i a st =
     (let n = uint a in
      if n > s st then fail E st
      else Inr (Continue (st\<lparr>s := s st - n, p := PCode (i + 1)\<rparr>)))"

text \<open>The \<^verbatim>\<open>for (; s < e; s++)\<close> loop of \<^verbatim>\<open>ISpan\<close>: the position it stops at.\<close>

function span_loop :: "env \<Rightarrow> byte list \<Rightarrow> int \<Rightarrow> int" where
  "span_loop E b j =
     (if j < limit E then (if \<not> testchar b (mem E j) then j else span_loop E b (j + 1)) else j)"
  by pat_completeness auto
termination
  by (relation "measure (\<lambda>(E, b, j). nat (limit E - j))") auto

declare span_loop.simps [simp del]

definition exec_ISpan :: "env \<Rightarrow> int \<Rightarrow> state \<Rightarrow> error + outcome" where
  "exec_ISpan E i st =
     (case buff_at E (i + 1) of
        None \<Rightarrow> Inl Undefined
      | Some b \<Rightarrow> Inr (Continue (st\<lparr>s := span_loop E b (s st), p := PCode (i + CHARSETINSTSIZE)\<rparr>)))"

definition exec_IJmp :: "env \<Rightarrow> int \<Rightarrow> state \<Rightarrow> error + outcome" where
  "exec_IJmp E i st =
     (case offset_at E (i + 1) of
        None \<Rightarrow> Inl Undefined
      | Some off \<Rightarrow> Inr (Continue (st\<lparr>p := PCode (i + off)\<rparr>)))"

definition exec_IChoice :: "env \<Rightarrow> int \<Rightarrow> state \<Rightarrow> error + outcome" where
  "exec_IChoice E i st =
     ebind (checkstack E st) (\<lambda>st1.
       case offset_at E (i + 1) of
         None \<Rightarrow> Inl Undefined
       | Some off \<Rightarrow>
           Inr (Continue (st1\<lparr>
             stackbase := (stackbase st1)(stack st1 := (stackbase st1 (stack st1))
                \<lparr>f_p := PCode (i + off), f_s := Some (s st1), f_caplevel := captop st1, f_X := XNull\<rparr>),
             stack := Suc (stack st1), p := PCode (i + 2)\<rparr>)))"

text \<open>
  \<^verbatim>\<open>ICall\<close> with \<^verbatim>\<open>k != 0\<close> and no item in the memo table (\<^verbatim>\<open>rule lvar.1 lvar.2\<close>);
  \<open>pA\<close> is the target and \<open>index\<close> its key.
\<close>

definition call_lvar1 :: "env \<Rightarrow> int \<Rightarrow> int \<Rightarrow> int \<Rightarrow> int \<Rightarrow> state \<Rightarrow> error + outcome" where
  "call_lvar1 E i k pA index st =
     (let l0 = (L st)\<lparr>lambda := (lambda (L st))(index \<mapsto>
                 \<lparr>l_X = LRFAIL, l_k = k, commitcap = None, commitcaptop = 0,
                  commitdyncapcount = 0, commitdyncap = []\<rparr>)\<rparr>
      in ebind (addcapturestostack (st\<lparr>L := l0\<rparr>)) (\<lambda>st1.
           (let l1 = (L st1)\<lparr>dyncaps := (if ndyncap st1 > 0 then lua_pop (ndyncap st1) (dyncaps (L st1))
                                           else dyncaps (L st1))\<rparr>;
                (newc, l2) = newcap l1 (INITCAPSIZE E) (capstacktop st1)
            in Inr (Continue (st1\<lparr>
                 ndyncap := 0, captop := 0, capsize := INITCAPSIZE E, capture := newc,
                 capstackbase := (capstackbase st1)(capstack st1 :=
                    \<lparr>cs_captop = 0, cs_dyncaptop = 0, cs_capsize = INITCAPSIZE E\<rparr>),
                 stackbase := (stackbase st1)(stack st1 :=
                    \<lparr>f_s = Some (s st1), f_p = PCode (i + 2), f_caplevel = 0, f_X = XLRFail, f_pA = pA\<rparr>),
                 stack := Suc (stack st1), p := PCode pA, L := l2\<rparr>)))))"

text \<open>
  \<^verbatim>\<open>ICall\<close> with \<^verbatim>\<open>k != 0\<close> and an item in the memo table (\<^verbatim>\<open>rule lvar.3 lvar.5\<close> and
  \<^verbatim>\<open>rule lvar.4\<close>). The field \<open>X\<close> was stored from a \<^verbatim>\<open>ptrdiff_t\<close> and is read into
  \<^verbatim>\<open>int X_X\<close>; the field \<open>k\<close> was stored from an \<^verbatim>\<open>int\<close>.
\<close>

definition call_memo :: "env \<Rightarrow> int \<Rightarrow> int \<Rightarrow> int \<Rightarrow> lambda_item \<Rightarrow> state \<Rightarrow> error + outcome" where
  "call_memo E i k index item st =
     (let X_X = to_int (l_X item); X_k = l_k item in
      if X_X = LRFAIL \<or> k < X_k then fail E st
      else ebind (addcapturesfromlambda index st) (\<lambda>st1.
             Inr (Continue (st1\<lparr>p := PCode (i + 2), s := X_X\<rparr>))))"

definition exec_ICall :: "env \<Rightarrow> int \<Rightarrow> byte \<Rightarrow> state \<Rightarrow> error + outcome" where
  "exec_ICall E i a st =
     (let k = uint a in
      ebind (checkstack E st) (\<lambda>st1.
        case offset_at E (i + 1) of
          None \<Rightarrow> Inl Undefined
        | Some off \<Rightarrow>
            if k = 0 then
              Inr (Continue (st1\<lparr>
                stackbase := (stackbase st1)(stack st1 := (stackbase st1 (stack st1))
                   \<lparr>f_s := None, f_X := XNull, f_p := PCode (i + 2)\<rparr>),
                stack := Suc (stack st1), p := PCode (i + off)\<rparr>))
            else
              (let pA = i + off; index = lambdaindex E pA (s st1) in
               case lambda (L st1) index of
                 None \<Rightarrow> call_lvar1 E i k pA index st1
               | Some item \<Rightarrow> call_memo E i k index item st1)))"

definition exec_ICommit :: "env \<Rightarrow> int \<Rightarrow> state \<Rightarrow> error + outcome" where
  "exec_ICommit E i st =
     (if \<not> (stack st > 0 \<and> f_s (stackbase st (stack st - 1)) \<noteq> None) then Inl AssertionViolated
      else (case offset_at E (i + 1) of
              None \<Rightarrow> Inl Undefined
            | Some off \<Rightarrow> Inr (Continue (st\<lparr>stack := stack st - 1, p := PCode (i + off)\<rparr>))))"

definition exec_IPartialCommit :: "env \<Rightarrow> int \<Rightarrow> state \<Rightarrow> error + outcome" where
  "exec_IPartialCommit E i st =
     (if \<not> (stack st > 0 \<and> f_s (stackbase st (stack st - 1)) \<noteq> None) then Inl AssertionViolated
      else (case offset_at E (i + 1) of
              None \<Rightarrow> Inl Undefined
            | Some off \<Rightarrow>
                Inr (Continue (st\<lparr>
                  stackbase := (stackbase st)(stack st - 1 := (stackbase st (stack st - 1))
                     \<lparr>f_s := Some (s st), f_caplevel := captop st\<rparr>),
                  p := PCode (i + off)\<rparr>))))"

definition exec_IBackCommit :: "env \<Rightarrow> int \<Rightarrow> state \<Rightarrow> error + outcome" where
  "exec_IBackCommit E i st =
     (if stack st = 0 then Inl AssertionViolated
      else (case f_s (stackbase st (stack st - 1)) of
              None \<Rightarrow> Inl AssertionViolated
            | Some v \<Rightarrow>
                (case offset_at E (i + 1) of
                   None \<Rightarrow> Inl Undefined
                 | Some off \<Rightarrow>
                     Inr (Continue (st\<lparr>stack := stack st - 1, s := v,
                            captop := f_caplevel (stackbase st (stack st - 1)),
                            p := PCode (i + off)\<rparr>)))))"

definition exec_IFailTwice :: "env \<Rightarrow> state \<Rightarrow> error + outcome" where
  "exec_IFailTwice E st =
     (if stack st = 0 then Inl AssertionViolated else fail E (st\<lparr>stack := stack st - 1\<rparr>))"

definition exec_ICloseRunTime :: "env \<Rightarrow> int \<Rightarrow> state \<Rightarrow> error + outcome" where
  "exec_ICloseRunTime E i st =
     (let vals = dyncaps (L st);
          (n, rem, results) = runtimecap E (heap (L st) (capture st)) (captop st) (s st) vals;
          ctop = captop st - n;
          nd = ndyncap st - int rem;
          fr = dbase E + int (length vals) + 1 - int rem;
          kept = take (length vals - rem) vals
      in ebind (resdyncaptures results (s st) (limit E)) (\<lambda>(res, news).
           if res = - 1
           then fail E (st\<lparr>captop := ctop, ndyncap := nd, L := (L st)\<lparr>dyncaps := kept @ news\<rparr>\<rparr>)
           else
             (let n1 = int (length news);
                  l1 = (L st)\<lparr>dyncaps := kept @ news\<rparr>
              in if n1 = 0
                 then Inr (Continue (st\<lparr>s := res, captop := ctop - 1, ndyncap := nd + n1, L := l1,
                                        p := PCode (i + 1)\<rparr>))
                 else if fr + n1 \<ge> SHRT_MAX then Inl TooManyResults
                 else ebind (growcap l1 (capture st) (capsize st) ctop (n1 + 1)) (\<lambda>(capt, csz, l2).
                        ebind (adddyncaptures res (heap l2 capt) ctop n1 fr) (\<lambda>block.
                          Inr (Continue (st\<lparr>s := res, captop := ctop + n1 + 1, ndyncap := nd + n1,
                                 capture := capt, capsize := csz,
                                 L := l2\<lparr>heap := (heap l2)(capt := block)\<rparr>,
                                 p := PCode (i + 1)\<rparr>)))))))"

text \<open>The label \<^verbatim>\<open>pushcapture\<close>; \<open>c\<close> is the entry \<^verbatim>\<open>capture[captop]\<close> as the case before left it.\<close>

definition pushcapture :: "int \<Rightarrow> byte \<Rightarrow> 16 word \<Rightarrow> Capture \<Rightarrow> state \<Rightarrow> error + outcome" where
  "pushcapture i a k c st =
     (let l1 = (L st)\<lparr>heap := (heap (L st))(capture st :=
                 (heap (L st) (capture st))(nat (captop st) := c\<lparr>c_idx := k, c_kind := getkind a\<rparr>))\<rparr>
      in ebind (growcap l1 (capture st) (capsize st) (captop st + 1) 0) (\<lambda>(capt, csz, l2).
           Inr (Continue (st\<lparr>captop := captop st + 1, capture := capt, capsize := csz, L := l2,
                            p := PCode (i + 1)\<rparr>))))"

definition exec_ICloseCapture :: "int \<Rightarrow> byte \<Rightarrow> 16 word \<Rightarrow> state \<Rightarrow> error + outcome" where
  "exec_ICloseCapture i a k st =
     (if \<not> captop st > 0 then Inl AssertionViolated
      else
        (let block = heap (L st) (capture st);
             prev = block (nat (captop st - 1))
         in case (if c_siz prev = 0 then c_s prev else None) of
              Some s1 \<Rightarrow>
                if s st - s1 < UCHAR_MAX
                then Inr (Continue (st\<lparr>
                       L := (L st)\<lparr>heap := (heap (L st))(capture st :=
                              block(nat (captop st - 1) := prev\<lparr>c_siz := word_of_int (s st - s1 + 1)\<rparr>))\<rparr>,
                       p := PCode (i + 1)\<rparr>))
                else pushcapture i a k ((block (nat (captop st)))\<lparr>c_siz := 1, c_s := Some (s st)\<rparr>) st
            | None \<Rightarrow>
                if c_siz prev = 0 then Inl Undefined
                else pushcapture i a k ((block (nat (captop st)))\<lparr>c_siz := 1, c_s := Some (s st)\<rparr>) st))"

definition exec_IOpenCapture :: "int \<Rightarrow> byte \<Rightarrow> 16 word \<Rightarrow> state \<Rightarrow> error + outcome" where
  "exec_IOpenCapture i a k st =
     pushcapture i a k ((heap (L st) (capture st) (nat (captop st)))\<lparr>c_siz := 0, c_s := Some (s st)\<rparr>) st"

definition exec_IFullCapture :: "int \<Rightarrow> byte \<Rightarrow> 16 word \<Rightarrow> state \<Rightarrow> error + outcome" where
  "exec_IFullCapture i a k st =
     pushcapture i a k ((heap (L st) (capture st) (nat (captop st)))
        \<lparr>c_siz := word_of_int (getoff a + 1), c_s := Some (s st - getoff a)\<rparr>) st"

subsection \<open>The loop of \<^verbatim>\<open>match\<close>\<close>

text \<open>
  One turn of the \<^verbatim>\<open>for (;;)\<close> loop: the \<^verbatim>\<open>assert\<close> at its head, then the \<^verbatim>\<open>switch\<close>
  (\<^verbatim>\<open>IOpenCall\<close> and \<^verbatim>\<open>IEmpty\<close> reach \<^verbatim>\<open>default: assert(0)\<close>).
\<close>

definition step :: "env \<Rightarrow> state \<Rightarrow> error + outcome" where
  "step E st =
     (if \<not> (ndyncap st = int (length (dyncaps (L st))) \<and> ndyncap st \<le> captop st)
      then Inl AssertionViolated
      else
        (case fetch E (p st) of
           None \<Rightarrow> Inl Undefined
         | Some (c, a, k) \<Rightarrow>
             (let i = (case p st of PCode j \<Rightarrow> j | PGiveup \<Rightarrow> 0) in
              case c of
                IEnd \<Rightarrow> exec_IEnd st
              | IGiveup \<Rightarrow> exec_IGiveup st
              | IRet \<Rightarrow> exec_IRet E st
              | IAny \<Rightarrow> exec_IAny E i st
              | IUTFR \<Rightarrow> exec_IUTFR E i a k st
              | ITestAny \<Rightarrow> exec_ITestAny E i st
              | IChar \<Rightarrow> exec_IChar E i a st
              | ITestChar \<Rightarrow> exec_ITestChar E i a st
              | ISet \<Rightarrow> exec_ISet E i st
              | ITestSet \<Rightarrow> exec_ITestSet E i st
              | IBehind \<Rightarrow> exec_IBehind E i a st
              | ISpan \<Rightarrow> exec_ISpan E i st
              | IJmp \<Rightarrow> exec_IJmp E i st
              | IChoice \<Rightarrow> exec_IChoice E i st
              | ICall \<Rightarrow> exec_ICall E i a st
              | ICommit \<Rightarrow> exec_ICommit E i st
              | IPartialCommit \<Rightarrow> exec_IPartialCommit E i st
              | IBackCommit \<Rightarrow> exec_IBackCommit E i st
              | IFailTwice \<Rightarrow> exec_IFailTwice E st
              | IFail \<Rightarrow> fail E st
              | ICloseRunTime \<Rightarrow> exec_ICloseRunTime E i st
              | ICloseCapture \<Rightarrow> exec_ICloseCapture i a k st
              | IOpenCapture \<Rightarrow> exec_IOpenCapture i a k st
              | IFullCapture \<Rightarrow> exec_IFullCapture i a k st
              | IOpenCall \<Rightarrow> Inl AssertionViolated
              | IEmpty \<Rightarrow> Inl AssertionViolated)))"

text \<open>
  The state before the first turn of the loop, for a match that starts at
  \<^verbatim>\<open>o + start\<close>; the capture array passed to \<^verbatim>\<open>match\<close> is the block 0.
\<close>

definition noframe :: Stack where
  "noframe = \<lparr>f_s = None, f_p = PGiveup, f_caplevel = 0, f_X = XNull, f_pA = 0\<rparr>"

definition initial :: "env \<Rightarrow> int \<Rightarrow> state" where
  "initial E start =
     \<lparr>s = start, p = PCode 0,
      stackbase = (\<lambda>_. noframe)(0 := \<lparr>f_s = Some start, f_p = PGiveup, f_caplevel = 0, f_X = XNull, f_pA = 0\<rparr>),
      stack = 1, stacklimit = INITBACK E, capsize = INITCAPSIZE E, captop = 0, ndyncap = 0,
      capture = 0,
      capstackbase = (\<lambda>_. \<lparr>cs_captop = 0, cs_dyncaptop = 0, cs_capsize = INITCAPSIZE E\<rparr>),
      capstack = 0, capstacksize = INITCAPSTACKSIZE E, capstacktop = 1,
      L = \<lparr>lambda = Map.empty, caplists = [1 \<mapsto> 0], dyncaplist = Map.empty, dyncaps = [],
           heap = (\<lambda>_ _. nocapture), nextblock = 1\<rparr>\<rparr>"

text \<open>
  The loop, with fuel: \<open>None\<close> when \<open>n\<close> turns do not reach a \<^verbatim>\<open>return\<close> or an
  error. \<open>match\<close> yields the value returned (\<open>None\<close> for \<^verbatim>\<open>NULL\<close>) and the final state.
\<close>

fun run :: "env \<Rightarrow> nat \<Rightarrow> state \<Rightarrow> (error + (int option \<times> state)) option" where
  "run E 0 st = None"
| "run E (Suc n) st =
     (case step E st of
        Inl e \<Rightarrow> Some (Inl e)
      | Inr (Return r st1) \<Rightarrow> Some (Inr (r, st1))
      | Inr (Continue st1) \<Rightarrow> run E n st1)"

definition match :: "env \<Rightarrow> int \<Rightarrow> nat \<Rightarrow> (error + (int option \<times> state)) option" where
  "match E start n = run E n (initial E start)"

text \<open>The state after \<open>n\<close> turns of the loop, when none of them returns or fails.\<close>

fun steps :: "env \<Rightarrow> nat \<Rightarrow> state \<Rightarrow> state option" where
  "steps E 0 st = Some st"
| "steps E (Suc n) st =
     (case step E st of Inr (Continue st1) \<Rightarrow> steps E n st1 | _ \<Rightarrow> None)"

subsection \<open>Concrete matches\<close>

text \<open>
  A call of \<^verbatim>\<open>match\<close> with the sizes of LPeg's headers (400 stack slots, 32
  captures), a subject followed by zero bytes, and \<open>host\<close> for what \<^verbatim>\<open>runtimecap\<close>
  yields.
\<close>

definition example_env :: "Instruction list \<Rightarrow> byte list \<Rightarrow> (int \<times> nat \<times> lval list) \<Rightarrow> env" where
  "example_env prog sub host =
     \<lparr>op = prog, subject = sub, beyond = (\<lambda>_. 0), maxstack = 400, dbase = 10,
      INITBACK = 400, INITCAPSIZE = 32, INITCAPSTACKSIZE = 4,
      runtimecap = (\<lambda>_ _ _ _. host)\<rparr>"

text \<open>The definitions to unfold when a turn of the loop is evaluated on a concrete state.\<close>

lemmas vm_defs =
  step_def fetch_def word_at_def offset_at_def buff_at_def example_env_def initial_def
  exec_ICall_def exec_IRet_def exec_IEnd_def exec_IGiveup_def exec_IAny_def exec_IChar_def
  exec_IBehind_def exec_IChoice_def exec_ICommit_def exec_IPartialCommit_def exec_IBackCommit_def
  exec_IFailTwice_def exec_ICloseRunTime_def exec_IOpenCapture_def exec_ICloseCapture_def
  exec_IFullCapture_def exec_IJmp_def exec_ITestAny_def exec_ITestChar_def exec_IUTFR_def
  pushcapture_def
  checkstack_def doublestack_def lambdaindex_def lambdakey_def maxpointer_def to_int_def limit_def mem_def call_lvar1_def call_memo_def
  addcapturestostack_def doublecapstack_def newcap_def lua_newuserdata_def lua_pop_def
  lastvalues_def ret_inc1_def ret_inc3_def inc_end_def restorecaptures_def
  removecapturesfromstack_def getcapturesfromstack_def addcapturesfromlambda_def
  clearlambdaitem_def putcapturestolambda_def ebind_def LRFAIL_def Let_def noframe_def
  fail_def removedyncap_def finddyncap_def lua_settop_def resdyncaptures_def adddyncaptures_def
  growcap_def MAXNEWSIZE_def getkind_def getoff_def Cgroup_def Cruntime_def Cclose_def
  lua_toboolean_def lua_isboolean_def lua_tointeger_def SHRT_MAX_def UCHAR_MAX_def nocapture_def
  rawgeti_upto_def match_def



text \<open>
  Two left-recursive rules, neither of which reads the subject:
  \<^verbatim>\<open>0: Call A (k = 1); 2: End; 3: A: Call B (k = 1); 5: Ret; 6: B: Ret\<close>.
\<close>

definition two_heads :: "Instruction list" where
  "two_heads =
     [Inst ICall 1 0, Offset 3, Inst IEnd 0 0,
      Inst ICall 1 0, Offset 3, Inst IRet 0 0,
      Inst IRet 0 0]"

text \<open>
  An and-predicate around a match-time capture:
  \<^verbatim>\<open>0: Choice L1; 2: OpenCapture group; 3: CloseRunTime; 4: BackCommit L2; 6: L1: Fail;
  7: L2: End\<close>.
\<close>

definition and_cmt :: "Instruction list" where
  "and_cmt =
     [Inst IChoice 0 0, Offset 6, Inst IOpenCapture 14 0, Inst ICloseRunTime 0 0,
      Inst IBackCommit 0 0, Offset 3, Inst IFail 0 0, Inst IEnd 0 0]"

text \<open>The number of captures of kind \<open>runtime\<close> among the first \<open>ctop\<close> entries of an array.\<close>

definition runtime_count :: "(nat \<Rightarrow> Capture) \<Rightarrow> int \<Rightarrow> int" where
  "runtime_count block ctop =
     int (length (filter (\<lambda>c. c_kind c = Cruntime) (map block [0..<nat ctop])))"

text \<open>
  Thirty-three captures, one more than the capture array passed to \<^verbatim>\<open>match\<close> holds,
  in front of a left-recursive rule that matches the empty string:
  \<^verbatim>\<open>0 .. 32: FullCapture (kind 1, size 0); 33: Call A (k = 1); 35: End; 36: A: Ret\<close>.
\<close>

definition captures_lr :: "Instruction list" where
  "captures_lr =
     replicate 33 (Inst IFullCapture 1 0) @
     [Inst ICall 1 0, Offset 3, Inst IEnd 0 0, Inst IRet 0 0]"

text \<open>
  The same captures in front of a choice whose first alternative is a left-recursive
  rule that fails:
  \<^verbatim>\<open>0 .. 32: FullCapture (kind 1, size 0); 33: Choice L1; 35: Call A (k = 1); 37: End;
  38: L1: End; 39: A: Fail\<close>.
\<close>

definition captures_lr_fail :: "Instruction list" where
  "captures_lr_fail =
     replicate 33 (Inst IFullCapture 1 0) @
     [Inst IChoice 0 0, Offset 5, Inst ICall 1 0, Offset 4, Inst IEnd 0 0, Inst IEnd 0 0,
      Inst IFail 0 0]"

section \<open>Properties\<close>

subsection \<open>The byte at the end of the subject\<close>

lemma limit_beyond [simp]: "limit (E\<lparr>beyond := b\<rparr>) = limit E"
  by (simp add: limit_def)

lemma word_at_beyond [simp]: "word_at (E\<lparr>beyond := b\<rparr>) i = word_at E i"
  by (simp add: word_at_def)

lemma fetch_beyond [simp]: "fetch (E\<lparr>beyond := b\<rparr>) q = fetch E q"
  by (simp add: fetch_def split: iptr.splits)

lemma offset_at_beyond [simp]: "offset_at (E\<lparr>beyond := b\<rparr>) i = offset_at E i"
  by (simp add: offset_at_def)

lemma buff_at_beyond [simp]: "buff_at (E\<lparr>beyond := b\<rparr>) i = buff_at E i"
  by (simp add: buff_at_def)

lemma lambdaindex_beyond [simp]: "lambdaindex (E\<lparr>beyond := b\<rparr>) pA s0 = lambdaindex E pA s0"
  by (simp add: lambdaindex_def lambdakey_def maxpointer_def)

lemma fail_loop_beyond [simp]: "fail_loop (E\<lparr>beyond := b\<rparr>) n st = fail_loop E n st"
  by (induction n arbitrary: st) (simp_all add: Let_def ebind_def split: sum.splits option.splits)

lemma removedyncap_beyond [simp]:
  "removedyncap (E\<lparr>beyond := b\<rparr>) l capt level lst = removedyncap E l capt level lst"
  by (simp add: removedyncap_def lua_settop_def Let_def)

lemma inc_end_beyond [simp]: "inc_end (E\<lparr>beyond := b\<rparr>) fr st = inc_end E fr st"
  by (simp add: inc_end_def cong: option.case_cong)

lemma fail_beyond [simp]: "fail (E\<lparr>beyond := b\<rparr>) st = fail E st"
  by (simp add: fail_def Let_def cong: if_cong xptr.case_cong)

lemma mem_at_limit: "mem (E\<lparr>beyond := b\<rparr>) (limit E) = b 0"
  by (simp add: mem_def)

text \<open>
  C10. When the cursor is at the end of the subject, the byte that \<^verbatim>\<open>IChar\<close>, \<^verbatim>\<open>ISet\<close>,
  \<^verbatim>\<open>ITestChar\<close> and \<^verbatim>\<open>ITestSet\<close> test is the byte stored after the subject
  (\<open>b 0\<close>, for any memory \<open>b\<close> after the subject), and whatever that byte is,
  \<^verbatim>\<open>IChar\<close> and \<^verbatim>\<open>ISet\<close> go to \<^verbatim>\<open>fail\<close> and \<^verbatim>\<open>ITestChar\<close> and \<^verbatim>\<open>ITestSet\<close> jump by their
  offset: the result of the turn does not mention \<open>b\<close>.
\<close>

theorem char_set_at_limit:
  assumes "s st = limit E" and "p st = PCode i" and "fetch E (p st) = Some (c, a, k)"
    and "ndyncap st = int (length (dyncaps (L st)))" and "ndyncap st \<le> captop st"
  shows "mem (E\<lparr>beyond := b\<rparr>) (s st) = b 0
    \<and> (c = IChar \<longrightarrow> step (E\<lparr>beyond := b\<rparr>) st = fail E st)
    \<and> (c = ISet \<longrightarrow> step (E\<lparr>beyond := b\<rparr>) st =
          (case buff_at E (i + 1) of None \<Rightarrow> Inl Undefined | Some cs \<Rightarrow> fail E st))
    \<and> (c = ITestChar \<longrightarrow> step (E\<lparr>beyond := b\<rparr>) st =
          (case offset_at E (i + 1) of None \<Rightarrow> Inl Undefined
           | Some off \<Rightarrow> Inr (Continue (st\<lparr>p := PCode (i + off)\<rparr>))))
    \<and> (c = ITestSet \<longrightarrow> step (E\<lparr>beyond := b\<rparr>) st =
          (case buff_at E (i + 2) of None \<Rightarrow> Inl Undefined
           | Some cs \<Rightarrow> (case offset_at E (i + 1) of None \<Rightarrow> Inl Undefined
               | Some off \<Rightarrow> Inr (Continue (st\<lparr>p := PCode (i + off)\<rparr>)))))"
  using assms
  by (auto simp: step_def mem_at_limit exec_IChar_def exec_ISet_def exec_ITestChar_def
      exec_ITestSet_def Let_def split: option.splits)

text \<open>
  The program \<^verbatim>\<open>Char 'a'; End\<close> on the empty subject, with the byte \<^verbatim>\<open>'a'\<close> stored
  after the subject: the turn tests that byte and goes to \<^verbatim>\<open>fail\<close>.
\<close>

theorem char_set_at_limit_witness:
  "s (initial (example_env [Inst IChar 97 0, Inst IEnd 0 0] [] (0, 0, [])) 0)
     = limit (example_env [Inst IChar 97 0, Inst IEnd 0 0] [] (0, 0, []))
   \<and> mem ((example_env [Inst IChar 97 0, Inst IEnd 0 0] [] (0, 0, []))\<lparr>beyond := (\<lambda>_. 97)\<rparr>)
        (s (initial (example_env [Inst IChar 97 0, Inst IEnd 0 0] [] (0, 0, [])) 0)) = 97
   \<and> step ((example_env [Inst IChar 97 0, Inst IEnd 0 0] [] (0, 0, []))\<lparr>beyond := (\<lambda>_. 97)\<rparr>)
        (initial (example_env [Inst IChar 97 0, Inst IEnd 0 0] [] (0, 0, [])) 0)
     = fail (example_env [Inst IChar 97 0, Inst IEnd 0 0] [] (0, 0, []))
        (initial (example_env [Inst IChar 97 0, Inst IEnd 0 0] [] (0, 0, [])) 0)"
  using char_set_at_limit [of "initial (example_env [Inst IChar 97 0, Inst IEnd 0 0] [] (0, 0, [])) 0"
      "example_env [Inst IChar 97 0, Inst IEnd 0 0] [] (0, 0, [])" 0 IChar 97 0 "\<lambda>_. 97"]
  by (simp add: initial_def example_env_def limit_def fetch_def word_at_def)

subsection \<open>Evaluating the loop on numerals\<close>

lemma steps_numeral:
  "steps E (numeral n) st =
     (case step E st of Inr (Continue st1) \<Rightarrow> steps E (pred_numeral n) st1 | _ \<Rightarrow> None)"
  by (simp add: numeral_eq_Suc)

lemma run_numeral:
  "run E (numeral n) st =
     (case step E st of
        Inl e \<Rightarrow> Some (Inl e)
      | Inr (Return r st1) \<Rightarrow> Some (Inr (r, st1))
      | Inr (Continue st1) \<Rightarrow> run E (pred_numeral n) st1)"
  by (simp add: numeral_eq_Suc)

subsection \<open>Match-time captures\<close>




subsection \<open>Splicing the captures of a memo item\<close>

text \<open>
  What "the captures memoised in \<open>item\<close> are spliced into the current log" means for the
  states \<open>st\<close> before and \<open>st'\<close> after: the first \<^verbatim>\<open>commitdyncapcount\<close> saved dynamic values
  are appended to the Lua stack (\<^verbatim>\<open>nil\<close> where the saved list is shorter; all of them
  when the count is the length of the list) and counted; the saved captures follow the
  current ones in the capture array, the \<^verbatim>\<open>idx\<close> of the runtime captures among them
  increased by the number of dynamic values there were (\<open>shifted\<close>); the captures before
  them are unchanged (when the saved array is not the current one). The saved array itself is rewritten: its runtime
  captures keep the increased \<^verbatim>\<open>idx\<close> (when it is not the array of the log after the
  splice). Without saved captures no array changes. Nothing else changes.
\<close>

definition shifted :: "int \<Rightarrow> Capture \<Rightarrow> Capture" where
  "shifted nd c = (if c_kind c = Cruntime then c\<lparr>c_idx := c_idx c + word_of_int nd\<rparr> else c)"






subsection \<open>A left-recursive call that finds a memo item\<close>


text \<open>The \<open>X\<close> of the memo item of the head \<open>pA\<close> at the position \<open>s0\<close>, if there is one.\<close>

definition memo_X :: "env \<Rightarrow> int \<Rightarrow> int \<Rightarrow> state \<Rightarrow> int option" where
  "memo_X E pA s0 st = map_option l_X (lambda (L st) (lambdaindex E pA s0))"





subsection \<open>The key of the memo table\<close>

lemma lambdakey_at_limit:
  "limit E < 2147483648 \<Longrightarrow> lambdakey E pA (limit E) = lambdakey E (pA + 1) 0"
  by (simp add: lambdakey_def maxpointer_def to_int_def limit_def algebra_simps)

lemma lambdaindex_at_limit:
  "limit E < 2147483648 \<Longrightarrow> lambdaindex E pA (limit E) = lambdaindex E (pA + 1) 0"
  by (simp add: lambdaindex_def lambdakey_at_limit)

lemma lambdaindex_empty_subject: "limit E = 0 \<Longrightarrow> lambdaindex E pA 0 = lambdaindex E pB 0"
  by (simp add: lambdaindex_def lambdakey_def maxpointer_def to_int_def)

lemma to_int_id: "- 2147483648 \<le> x \<Longrightarrow> x < 2147483648 \<Longrightarrow> to_int x = x"
  by (simp add: to_int_def)

text \<open>
  A head at the word 2000 of the program and a subject of 1100000 bytes: the key that
  the growth branch of \<^verbatim>\<open>IRet\<close> pushes is not the key that \<^verbatim>\<open>ICall\<close> stored the item under.
\<close>

lemma lambdakey_not_lambdaindex:
  "lambdakey (example_env prog (replicate 1100000 0) host) 2000 0 = 2200000000
   \<and> lambdaindex (example_env prog (replicate 1100000 0) host) 2000 0 = - 2094967296"
  by (simp add: lambdaindex_def lambdakey_def maxpointer_def to_int_def limit_def example_env_def)

text \<open>
  C5. The key is not injective: the multiplier is \<^verbatim>\<open>e - o\<close> while \<^verbatim>\<open>s - o\<close> ranges up to
  \<^verbatim>\<open>e - o\<close> inclusive. On the empty subject the heads 3 and 6 of the program \<open>two_heads\<close>
  have the same key at position 0; the call of the second rule finds the item of the
  first and fails, and \<^verbatim>\<open>match\<close> returns \<^verbatim>\<open>NULL\<close>. On the subject \<^verbatim>\<open>a\<close>, where the keys
  differ, the same program (which never reads the subject) matches at position 0.
\<close>

theorem two_heads_one_key:
  "lambdaindex (example_env two_heads [] (0, 0, [])) 3 0
     = lambdaindex (example_env two_heads [] (0, 0, [])) 6 0
   \<and> map_option (map_sum id fst) (match (example_env two_heads [] (0, 0, [])) 0 10) = Some (Inr None)
   \<and> map_option (map_sum id fst) (match (example_env two_heads [97] (0, 0, [])) 0 10) = Some (Inr (Some 0))"
  by (simp add: vm_defs two_heads_def run_numeral)

subsection \<open>Counting the dynamic captures\<close>

text \<open>
  C9. \<^verbatim>\<open>IBackCommit\<close> sets \<^verbatim>\<open>captop\<close> back to the level of the choice and leaves
  \<^verbatim>\<open>ndyncap\<close> and the Lua stack as they are. With a host function that returns \<^verbatim>\<open>true\<close>
  and one value, the program \<open>and_cmt\<close> is after four turns at \<^verbatim>\<open>End\<close> with \<^verbatim>\<open>captop = 0\<close>,
  no runtime capture in the log, \<^verbatim>\<open>ndyncap = 1\<close> and one dynamic value on the Lua stack;
  the \<^verbatim>\<open>assert\<close> at the head of the loop is violated in the fifth turn.
\<close>

theorem backcommit_keeps_ndyncap:
  "(\<exists>st. steps (example_env and_cmt [97] (0, 0, [LBool True, LOther 7])) 4
            (initial (example_env and_cmt [97] (0, 0, [LBool True, LOther 7])) 0) = Some st
      \<and> p st = PCode 7 \<and> captop st = 0 \<and> ndyncap st = 1 \<and> dyncaps (L st) = [LOther 7]
      \<and> runtime_count (heap (L st) (capture st)) (captop st) = 0
      \<and> step (example_env and_cmt [97] (0, 0, [LBool True, LOther 7])) st = Inl AssertionViolated)
   \<and> map_option (map_sum id fst)
        (match (example_env and_cmt [97] (0, 0, [LBool True, LOther 7])) 0 10)
      = Some (Inl AssertionViolated)"
  by (simp add: vm_defs and_cmt_def run_numeral steps_numeral runtime_count_def)

subsection \<open>The capture array that comes back when a left-recursive frame is popped\<close>

text \<open>The entry \<open>j\<close> of the current capture array.\<close>

definition log_entry :: "state \<Rightarrow> nat \<Rightarrow> Capture" where
  "log_entry st j = heap (L st) (capture st) j"

text \<open>
  C1. \<^verbatim>\<open>growcap\<close> replaces the array in the slot \<^verbatim>\<open>caplistidx\<close> only; the table
  \<^verbatim>\<open>caplists\<close> still holds the array it left, and the entry of the capture stack still
  holds the size \<^verbatim>\<open>INITCAPSIZE\<close>. The program \<open>captures_lr\<close> logs 33 captures, which
  moves the log to a new array of 66 entries, and calls a left-recursive rule. After
  33 turns, at the call: the log is the array 1, \<^verbatim>\<open>captop = 33\<close>, \<^verbatim>\<open>capsize = 66\<close>, its
  entry 32 is the last capture, and the array registered for the level is the array
  0. The call saves \<^verbatim>\<open>captop\<close>; the first \<^verbatim>\<open>Ret\<close> grows the seed, the second one
  (\<^verbatim>\<open>rule inc.3\<close>, turn 36) pops the frame and takes the capture state back from the
  level: the array 0 with \<^verbatim>\<open>captop = 33\<close> and \<^verbatim>\<open>capsize = 32\<close>, where the entry 32 was
  never written. \<^verbatim>\<open>End\<close> then writes the entry 33 of an array of 32 entries, and the
  match returns position 0 with a log that has lost its last capture.
\<close>

theorem ret_restores_stale_array:
  "(\<exists>st. steps (example_env captures_lr [97] (0, 0, [])) 33
            (initial (example_env captures_lr [97] (0, 0, [])) 0) = Some st
      \<and> p st = PCode 33 \<and> capture st = 1 \<and> captop st = 33 \<and> capsize st = 66
      \<and> log_entry st 32 = \<lparr>c_s = Some 0, c_idx = 0, c_kind = 1, c_siz = 1\<rparr>
      \<and> caplists (L st) (capstacktop st) = Some 0)
   \<and> (\<exists>st. steps (example_env captures_lr [97] (0, 0, [])) 35
            (initial (example_env captures_lr [97] (0, 0, [])) 0) = Some st
      \<and> p st = PCode 36 \<and> stack st = 2 \<and> f_X (stackbase st 1) = XPos 0 \<and> s st = 0)
   \<and> (\<exists>st. steps (example_env captures_lr [97] (0, 0, [])) 36
            (initial (example_env captures_lr [97] (0, 0, [])) 0) = Some st
      \<and> p st = PCode 35 \<and> stack st = 1 \<and> capture st = 0 \<and> captop st = 33 \<and> capsize st = 32
      \<and> log_entry st 32 = nocapture)
   \<and> (\<exists>st. match (example_env captures_lr [97] (0, 0, [])) 0 40 = Some (Inr (Some 0, st))
      \<and> capture st = 0 \<and> captop st = 33 \<and> capsize st = 32
      \<and> log_entry st 32 = nocapture \<and> c_kind (log_entry st 33) = Cclose)"
  by (simp add: vm_defs captures_lr_def log_entry_def steps_numeral run_numeral nth_append)

text \<open>
  C3. The same happens when \<^verbatim>\<open>fail\<close> pops a left-recursive frame in the state
  \<^verbatim>\<open>LRFAIL\<close>. The program \<open>captures_lr_fail\<close> logs 33 captures, pushes a choice and calls
  a left-recursive rule that fails. After 35 turns, in the rule: the stack holds the
  choice frame (\<^verbatim>\<open>caplevel = 33\<close>) and the left-recursive frame, and the array registered
  for the level below is the array 0, while the log that was saved is the array 1.
  \<^verbatim>\<open>fail\<close> (turn 36) pops both frames, deletes the memo item and continues at the
  alternative with \<^verbatim>\<open>captop = 33\<close>, but in the array 0 with \<^verbatim>\<open>capsize = 32\<close>: the entry
  32 of the log is not the capture that was there when the rule was entered.
\<close>

theorem fail_restores_stale_array:
  "(\<exists>st. steps (example_env captures_lr_fail [97] (0, 0, [])) 34
            (initial (example_env captures_lr_fail [97] (0, 0, [])) 0) = Some st
      \<and> p st = PCode 35 \<and> capture st = 1 \<and> captop st = 33 \<and> capsize st = 66
      \<and> log_entry st 32 = \<lparr>c_s = Some 0, c_idx = 0, c_kind = 1, c_siz = 1\<rparr>
      \<and> caplists (L st) (capstacktop st) = Some 0)
   \<and> (\<exists>st. steps (example_env captures_lr_fail [97] (0, 0, [])) 35
            (initial (example_env captures_lr_fail [97] (0, 0, [])) 0) = Some st
      \<and> p st = PCode 39 \<and> stack st = 3 \<and> f_X (stackbase st 2) = XLRFail
      \<and> f_X (stackbase st 1) = XNull \<and> f_caplevel (stackbase st 1) = 33
      \<and> memo_X (example_env captures_lr_fail [97] (0, 0, [])) 39 0 st = Some LRFAIL)
   \<and> (\<exists>st. steps (example_env captures_lr_fail [97] (0, 0, [])) 36
            (initial (example_env captures_lr_fail [97] (0, 0, [])) 0) = Some st
      \<and> p st = PCode 38 \<and> stack st = 1 \<and> s st = 0
      \<and> memo_X (example_env captures_lr_fail [97] (0, 0, [])) 39 0 st = None
      \<and> capture st = 0 \<and> captop st = 33 \<and> capsize st = 32
      \<and> log_entry st 32 = nocapture)
   \<and> (\<exists>st. match (example_env captures_lr_fail [97] (0, 0, [])) 0 40 = Some (Inr (Some 0, st))
      \<and> capture st = 0 \<and> captop st = 33 \<and> capsize st = 32
      \<and> log_entry st 32 = nocapture \<and> c_kind (log_entry st 33) = Cclose)"
  by (simp add: vm_defs captures_lr_fail_def log_entry_def memo_X_def steps_numeral run_numeral
      nth_append)

subsection \<open>What a turn does to the stack, the cursor and the memo table\<close>









lemma l_X_putcapturestolambda [simp]:
  "l_X (putcapturestolambda l capt nd ctop item) = l_X item"
  by (simp add: putcapturestolambda_def)






subsection \<open>Failing at the bottom frame\<close>


























subsection \<open>The range of the cursor\<close>

























subsection \<open>The number of growth iterations\<close>






















end
